theory Spec2Isabelle
  imports Main "HOL-Library.Sublist"
begin

section \<open>Data model of the chat session store\<close>

text \<open>
  The store is the closure built by \<^verbatim>\<open>ChatPlugin.install\<close>: a handful of reactive
  references and the asynchronous functions over them. A reference becomes a field of the
  record \<open>ChatStore\<close>; a function becomes a HOL function from the store to the store.

  Timestamps are written by \<^verbatim>\<open>new Date().toISOString()\<close> and read back by
  \<^verbatim>\<open>new Date(s).getTime()\<close>; they are modelled by the number of milliseconds both
  agree on. A file is represented by its name. Values the environment supplies (the results
  of \<^verbatim>\<open>uuidv4()\<close>, of \<^verbatim>\<open>new Date()\<close> and of the backend) are arguments.

  Left out: the \<^verbatim>\<open>scrollToBottom\<close> events \<^verbatim>\<open>sendMessage\<close> emits, which touch no
  state of the store, and the reference \<^verbatim>\<open>agentId\<close>, which no function reads or writes.
\<close>

type_synonym Timestamp = int
type_synonym File = string

datatype Sender = User | Bot

record ChatMessage =
  msg_id :: string
  msg_text :: string
  msg_sender :: Sender
  msg_files :: "File list option"
  msg_createdAt :: Timestamp

record MessageCount =
  user :: nat
  bot :: nat

record ConversationMeta =
  conv_id :: string
  conv_name :: string
  lastUpdated :: Timestamp
  messageCount :: MessageCount

record ChatOptions =
  opt_initialMessages :: "string list option"
  opt_loadPreviousSession :: bool
  opt_agentId :: "string option"

text \<open>
  The browser's \<^verbatim>\<open>localStorage\<close>, restricted to the two keys the store uses
  (\<^verbatim>\<open>localStorageSessionIdKey\<close> and \<^verbatim>\<open>localStorageSessionConversationKeys\<close>, two
  distinct constants); \<open>None\<close> is what \<^verbatim>\<open>getItem\<close> returns as \<^verbatim>\<open>null\<close>.
\<close>

record LocalStorage =
  item_sessionId :: "string option"
  item_conversations :: "string option"

record ChatStore =
  conversations :: "ConversationMeta list"
  sessions :: "string \<rightharpoonup> ChatMessage list"
  currentSessionId :: "string option"
  activeSessionId :: "string option"
  waitingForResponse :: bool
  initialMessages_cache :: "ChatMessage list option"
  localStorage :: LocalStorage

datatype error = SyntaxError | TypeError | BackendRejected

text \<open>A property of a response object: missing, \<^verbatim>\<open>null\<close>, or holding a value.\<close>

datatype 'a js_field = Absent | Null | Value 'a

record SendMessageResponse =
  resp_output :: "string js_field"
  resp_text :: "string js_field"
  resp_otherKeys :: "string list"

record Kwargs =
  content :: string

record HistoryRecord =
  rec_id :: string
  kwargs :: Kwargs

record LoadPreviousSessionResponse =
  data :: "HistoryRecord list option"

record SendRequest =
  req_text :: string
  req_files :: "File list"
  req_sessionId :: string

text \<open>A backend promise either rejects or resolves with a value.\<close>

datatype 'a promise = Rejected | Resolved 'a

text \<open>
  What \<^verbatim>\<open>JSON.parse\<close> makes of the stored registry: an array, whose elements are
  taken to be summaries as \<^verbatim>\<open>updateStoredConversations\<close> writes them, or a value that
  is not an array (\<^verbatim>\<open>null\<close>, a number, a string, an object), on which
  \<^verbatim>\<open>find\<close> cannot be called.
\<close>

datatype parsed = Registry "ConversationMeta list" | NotAnArray

text \<open>
  \<^verbatim>\<open>JSON.parse\<close> and \<^verbatim>\<open>JSON.stringify\<close> are the runtime's; the store is
  verified for every such pair of functions. Parsing may throw; so may the serialisation of
  an arbitrary response object.
\<close>

record JSON =
  parse_conversations :: "string \<Rightarrow> error + parsed"
  stringify_conversations :: "ConversationMeta list \<Rightarrow> string"
  stringify_response :: "SendMessageResponse \<Rightarrow> error + string"

text \<open>How an asynchronous store function ends: it returns, or an exception escapes it.\<close>

datatype 'a outcome = Returned 'a ChatStore | Threw error ChatStore

section \<open>JavaScript helpers\<close>

text \<open>
  A string that may be \<^verbatim>\<open>null\<close> is an option; as a condition it holds when it is a
  non-empty string, which the functions below spell out where the code tests one.
\<close>

definition nullish_or :: "'a js_field \<Rightarrow> 'a \<Rightarrow> 'a" where
  "nullish_or f d = (case f of Value v \<Rightarrow> v | _ \<Rightarrow> d)"

definition Object_keys :: "SendMessageResponse \<Rightarrow> string list" where
  "Object_keys r =
     (if resp_output r = Absent then [] else [''output'']) @
     (if resp_text r = Absent then [] else [''text'']) @
     resp_otherKeys r"

definition includes_str :: "string \<Rightarrow> string \<Rightarrow> bool" where
  "includes_str s sub = sublist sub s"

fun string_of_nat :: "nat \<Rightarrow> string" where
  "string_of_nat n =
     (if n < 10 then [''0123456789'' ! n]
      else string_of_nat (n div 10) @ [''0123456789'' ! (n mod 10)])"

text \<open>
  \<^verbatim>\<open>xs.find(p)\<close> followed by an assignment to a field of the object found: the first
  element that satisfies \<open>p\<close> is changed in place.
\<close>

fun mutate_first :: "('a \<Rightarrow> bool) \<Rightarrow> ('a \<Rightarrow> 'a) \<Rightarrow> 'a list \<Rightarrow> 'a list" where
  "mutate_first p f [] = []"
| "mutate_first p f (x # xs) = (if p x then f x # xs else x # mutate_first p f xs)"

text \<open>
  \<^verbatim>\<open>conversations.sort((a, b) => time(b) - time(a))\<close>: a stable sort, latest first.
\<close>

definition sort_latest_first :: "ConversationMeta list \<Rightarrow> ConversationMeta list" where
  "sort_latest_first cs = sort_key (\<lambda>c. - lastUpdated c) cs"

section \<open>Persistence\<close>

definition getStoredConversations_try :: "JSON \<Rightarrow> LocalStorage \<Rightarrow> error + parsed" where
  "getStoredConversations_try J ls =
     (case item_conversations ls of
        None \<Rightarrow> Inr (Registry [])
      | Some stored \<Rightarrow>
          if stored = [] then Inr (Registry []) else parse_conversations J stored)"

definition getStoredConversations :: "JSON \<Rightarrow> LocalStorage \<Rightarrow> error + parsed" where
  "getStoredConversations J ls =
     (case getStoredConversations_try J ls of
        Inr v \<Rightarrow> Inr v
      | Inl e \<Rightarrow> Inr (Registry []))"

definition updateStoredConversations :: "JSON \<Rightarrow> ConversationMeta list \<Rightarrow> LocalStorage \<Rightarrow> LocalStorage" where
  "updateStoredConversations J cs ls = ls\<lparr>item_conversations := Some (stringify_conversations J cs)\<rparr>"

section \<open>The store\<close>

text \<open>
  The state \<^verbatim>\<open>install\<close> sets up, from what the browser has stored. The record
  \<open>ChatStore\<close> holds the stores whose registry is a list of summaries, as the type
  \<^verbatim>\<open>Ref<ConversationMeta[]>\<close> declares it. When the stored registry parses to a value
  that is not an array, \<^verbatim>\<open>install\<close> puts that value in \<^verbatim>\<open>conversations\<close>: there
  is no such \<open>ChatStore\<close>, and the model gives \<open>None\<close>.
\<close>

definition install :: "JSON \<Rightarrow> LocalStorage \<Rightarrow> ChatStore option" where
  "install J ls =
     (case getStoredConversations J ls of
        Inl e \<Rightarrow> None
      | Inr NotAnArray \<Rightarrow> None
      | Inr (Registry cs) \<Rightarrow>
          Some \<lparr>conversations = cs, sessions = Map.empty, currentSessionId = None,
                 activeSessionId = None, waitingForResponse = False,
                 initialMessages_cache = None, localStorage = ls\<rparr>)"

text \<open>
  \<^verbatim>\<open>initialMessages\<close> is a \<^verbatim>\<open>computed\<close> whose getter reads no reactive value
  (\<^verbatim>\<open>options\<close> is the plain object given to the plugin), so the getter runs at the first
  read of \<^verbatim>\<open>initialMessages.value\<close> and its result is kept from then on. The getter
  calls \<^verbatim>\<open>uuidv4()\<close> and \<^verbatim>\<open>new Date()\<close> once for each text: \<open>uuids i\<close> and
  \<open>stamps i\<close> are what the calls for the \<open>i\<close>-th text return.
\<close>

definition configuredInitialMessages :: "ChatOptions \<Rightarrow> string list" where
  "configuredInitialMessages opts =
     (case opt_initialMessages opts of None \<Rightarrow> [] | Some ts \<Rightarrow> ts)"

definition initialMessages_getter :: "ChatOptions \<Rightarrow> (nat \<Rightarrow> string) \<Rightarrow> (nat \<Rightarrow> Timestamp) \<Rightarrow> ChatMessage list" where
  "initialMessages_getter opts uuids stamps =
     map (\<lambda>(i, t). \<lparr>msg_id = uuids i, msg_text = t, msg_sender = Bot, msg_files = None,
                     msg_createdAt = stamps i\<rparr>)
       (enumerate 0 (configuredInitialMessages opts))"

definition initialMessages_value ::
  "ChatOptions \<Rightarrow> (nat \<Rightarrow> string) \<Rightarrow> (nat \<Rightarrow> Timestamp) \<Rightarrow> ChatStore \<Rightarrow> ChatMessage list \<times> ChatStore" where
  "initialMessages_value opts uuids stamps s =
     (case initialMessages_cache s of
        Some ms \<Rightarrow> (ms, s)
      | None \<Rightarrow>
          (let ms = initialMessages_getter opts uuids stamps
           in (ms, s\<lparr>initialMessages_cache := Some ms\<rparr>)))"

text \<open>The messages on display: those of the active session.\<close>

definition messages :: "ChatStore \<Rightarrow> ChatMessage list" where
  "messages s =
     (case activeSessionId s of
        None \<Rightarrow> []
      | Some a \<Rightarrow>
          if a = [] then []
          else (case sessions s a of None \<Rightarrow> [] | Some ms \<Rightarrow> ms))"

subsection \<open>sendMessage\<close>

text \<open>
  \<^verbatim>\<open>sendMessage\<close> suspends once, at the backend call. \<open>sendMessage_begin\<close> is the
  code up to the \<^verbatim>\<open>await\<close>: it returns at once when no session is active, or gives the
  request it passes to the backend, the local \<^verbatim>\<open>updatedMessages\<close> it keeps, and the
  store it leaves while the call is in flight. \<open>sendMessage_resume\<close> is the code after
  the \<^verbatim>\<open>await\<close>, run on the store as it is when the reply arrives.
\<close>

record SendDraws =
  sentId :: string
  sentAt :: Timestamp
  receivedId :: string
  receivedAt :: Timestamp
  generatedName :: string
  updatedAt :: Timestamp

datatype send_step = SendReturn ChatStore | SendAwait SendRequest "ChatMessage list" ChatStore

definition sendMessage_begin :: "string \<Rightarrow> File list \<Rightarrow> SendDraws \<Rightarrow> ChatStore \<Rightarrow> send_step" where
  "sendMessage_begin body fs d s =
     (case activeSessionId s of
        None \<Rightarrow> SendReturn s
      | Some a \<Rightarrow>
          if a = [] then SendReturn s
          else
            (let sentMessage = \<lparr>msg_id = sentId d, msg_text = body, msg_sender = User,
                                msg_files = Some fs, msg_createdAt = sentAt d\<rparr>;
                 sessionMessages = (case sessions s a of None \<Rightarrow> [] | Some ms \<Rightarrow> ms);
                 updatedMessages = sessionMessages @ [sentMessage]
             in SendAwait \<lparr>req_text = body, req_files = fs, req_sessionId = a\<rparr> updatedMessages
                  (s\<lparr>sessions := (sessions s)(a \<mapsto> updatedMessages),
                     waitingForResponse := True\<rparr>)))"

definition replyText :: "JSON \<Rightarrow> SendMessageResponse \<Rightarrow> string" where
  "replyText J r =
     (let textMessage = nullish_or (resp_output r) (nullish_or (resp_text r) [])
      in if textMessage = [] \<and> length (Object_keys r) > 0
         then (case stringify_response J r of Inr str \<Rightarrow> str | Inl e \<Rightarrow> textMessage)
         else textMessage)"

definition upsertConversation :: "string \<Rightarrow> MessageCount \<Rightarrow> SendDraws \<Rightarrow> ConversationMeta list \<Rightarrow> ConversationMeta list" where
  "upsertConversation a stats d cs =
     (case find (\<lambda>c. conv_id c = a) cs of
        Some existingConversation \<Rightarrow>
          mutate_first (\<lambda>c. conv_id c = a)
            (\<lambda>c. c\<lparr>lastUpdated := updatedAt d, messageCount := stats\<rparr>) cs
      | None \<Rightarrow>
          cs @ [\<lparr>conv_id = a, conv_name = generatedName d, lastUpdated = updatedAt d,
                 messageCount = stats\<rparr>])"

text \<open>
  After the \<^verbatim>\<open>await\<close> the code reads \<^verbatim>\<open>activeSessionId.value\<close> again, three times
  (the \<^verbatim>\<open>set\<close>, the \<^verbatim>\<open>find\<close> and the \<^verbatim>\<open>push\<close>). No store function assigns
  \<^verbatim>\<open>null\<close> to it, and the first phase has found it set, so the \<open>None\<close> branch is
  never taken; the model leaves the store as it is there.
\<close>

definition sendMessage_resume :: "JSON \<Rightarrow> ChatMessage list \<Rightarrow> SendMessageResponse \<Rightarrow> SendDraws \<Rightarrow> ChatStore \<Rightarrow> ChatStore" where
  "sendMessage_resume J updatedMessages r d s =
     (case activeSessionId s of
        None \<Rightarrow> s
      | Some a \<Rightarrow>
          (let receivedMessage = \<lparr>msg_id = receivedId d, msg_text = replyText J r,
                                  msg_sender = Bot, msg_files = None,
                                  msg_createdAt = receivedAt d\<rparr>;
               finalMessages = updatedMessages @ [receivedMessage];
               s1 = s\<lparr>sessions := (sessions s)(a \<mapsto> finalMessages)\<rparr>;
               messageStats = \<lparr>user = length (filter (\<lambda>m. msg_sender m = User) finalMessages),
                               bot = length (filter (\<lambda>m. msg_sender m = Bot) finalMessages)\<rparr>;
               s2 = (if user messageStats > 0 \<and> bot messageStats > 0
                     then (let cs = sort_latest_first
                                      (upsertConversation a messageStats d (conversations s1))
                           in s1\<lparr>conversations := cs,
                                 localStorage := updateStoredConversations J cs (localStorage s1)\<rparr>)
                     else s1)
           in s2\<lparr>waitingForResponse := False\<rparr>))"

text \<open>The whole call, when nothing else runs while the backend call is in flight.\<close>

definition sendMessage ::
  "JSON \<Rightarrow> (SendRequest \<Rightarrow> SendMessageResponse promise) \<Rightarrow> string \<Rightarrow> File list \<Rightarrow> SendDraws \<Rightarrow> ChatStore \<Rightarrow> unit outcome" where
  "sendMessage J api body fs d s =
     (case sendMessage_begin body fs d s of
        SendReturn s' \<Rightarrow> Returned () s'
      | SendAwait req updatedMessages s' \<Rightarrow>
          (case api req of
             Rejected \<Rightarrow> Threw BackendRejected s'
           | Resolved r \<Rightarrow> Returned () (sendMessage_resume J updatedMessages r d s')))"

subsection \<open>switchSession\<close>

datatype switch_step = SwitchReturn "string option" ChatStore | SwitchAwait string ChatStore

definition compositeId :: "ChatOptions \<Rightarrow> string \<Rightarrow> string" where
  "compositeId opts sessionId =
     (case opt_agentId opts of
        None \<Rightarrow> []
      | Some ag \<Rightarrow> if ag = [] then [] else ag @ ''-'') @ sessionId"

definition switchSession_begin :: "ChatOptions \<Rightarrow> string \<Rightarrow> ChatStore \<Rightarrow> switch_step" where
  "switchSession_begin opts sessionId s =
     (let s1 = s\<lparr>activeSessionId := Some sessionId, currentSessionId := Some sessionId\<rparr>
      in if sessions s1 sessionId = None
         then SwitchAwait (compositeId opts sessionId)
                (s1\<lparr>sessions := (sessions s1)(sessionId \<mapsto> []), waitingForResponse := True\<rparr>)
         else SwitchReturn None s1)"

definition history_data :: "LoadPreviousSessionResponse option \<Rightarrow> HistoryRecord list" where
  "history_data previousMessagesResponse =
     (case previousMessagesResponse of
        None \<Rightarrow> []
      | Some r \<Rightarrow> (case data r of None \<Rightarrow> [] | Some ms \<Rightarrow> ms))"

definition history_message :: "Timestamp \<Rightarrow> nat \<times> HistoryRecord \<Rightarrow> ChatMessage" where
  "history_message timestamp im =
     \<lparr>msg_id = string_of_nat (fst im), msg_text = content (kwargs (snd im)),
      msg_sender = (if includes_str (rec_id (snd im)) ''HumanMessage'' then User else Bot),
      msg_files = None, msg_createdAt = timestamp\<rparr>"

definition switchSession_resume ::
  "string \<Rightarrow> LoadPreviousSessionResponse option \<Rightarrow> Timestamp \<Rightarrow> ChatStore \<Rightarrow> string option \<times> ChatStore" where
  "switchSession_resume sessionId previousMessagesResponse timestamp s =
     (let s1 = s\<lparr>waitingForResponse := False\<rparr>;
          sessionMessages = map (history_message timestamp)
                              (enumerate 0 (history_data previousMessagesResponse))
      in (Some sessionId, s1\<lparr>sessions := (sessions s1)(sessionId \<mapsto> sessionMessages)\<rparr>))"

definition switchSession ::
  "ChatOptions \<Rightarrow> (string \<Rightarrow> LoadPreviousSessionResponse option promise) \<Rightarrow> Timestamp \<Rightarrow> string \<Rightarrow> ChatStore \<Rightarrow> string option outcome" where
  "switchSession opts api timestamp sessionId s =
     (case switchSession_begin opts sessionId s of
        SwitchReturn res s' \<Rightarrow> Returned res s'
      | SwitchAwait req s' \<Rightarrow>
          (case api req of
             Rejected \<Rightarrow> Threw BackendRejected s'
           | Resolved r \<Rightarrow>
               (case switchSession_resume sessionId r timestamp s' of
                  (res, s'') \<Rightarrow> Returned res s'')))"

subsection \<open>loadConversation, startNewSession, loadPreviousSession\<close>

definition loadConversation ::
  "JSON \<Rightarrow> ChatOptions \<Rightarrow> (string \<Rightarrow> LoadPreviousSessionResponse option promise) \<Rightarrow> Timestamp \<Rightarrow> Timestamp \<Rightarrow> string \<Rightarrow> ChatStore \<Rightarrow> unit outcome" where
  "loadConversation J opts api timestamp accessedAt conversationId s =
     (case switchSession opts api timestamp conversationId s of
        Threw e s' \<Rightarrow> Threw e s'
      | Returned res s' \<Rightarrow>
          (case find (\<lambda>c. conv_id c = conversationId) (conversations s') of
             Some conversation \<Rightarrow>
               (let cs = mutate_first (\<lambda>c. conv_id c = conversationId)
                           (\<lambda>c. c\<lparr>lastUpdated := accessedAt\<rparr>) (conversations s')
                in Returned () (s'\<lparr>conversations := cs,
                                   localStorage := updateStoredConversations J cs (localStorage s')\<rparr>))
           | None \<Rightarrow> Returned () s'))"

definition startNewSession ::
  "ChatOptions \<Rightarrow> string \<Rightarrow> (nat \<Rightarrow> string) \<Rightarrow> (nat \<Rightarrow> Timestamp) \<Rightarrow> ChatStore \<Rightarrow> ChatStore" where
  "startNewSession opts newSessionId uuids stamps s =
     (let s1 = s\<lparr>activeSessionId := Some newSessionId, currentSessionId := Some newSessionId\<rparr>
      in case initialMessages_value opts uuids stamps s1 of
           (ms, s2) \<Rightarrow>
             s2\<lparr>sessions := (sessions s2)(newSessionId \<mapsto> ms),
                localStorage := (localStorage s2)\<lparr>item_sessionId := Some newSessionId\<rparr>\<rparr>)"

text \<open>
  What the environment supplies to one call of \<^verbatim>\<open>loadPreviousSession\<close>: the backend,
  the time of the fetch, and what \<^verbatim>\<open>startNewSession\<close> draws. The function calls
  \<^verbatim>\<open>find\<close> on whatever \<^verbatim>\<open>getStoredConversations\<close> returned: on a value that is not
  an array this throws a \<^verbatim>\<open>TypeError\<close>, before the store is touched.
\<close>

record LoadDraws =
  history_api :: "string \<Rightarrow> LoadPreviousSessionResponse option promise"
  fetchedAt :: Timestamp
  newSessionId :: string
  initial_uuids :: "nat \<Rightarrow> string"
  initial_times :: "nat \<Rightarrow> Timestamp"

definition loadPreviousSession :: "JSON \<Rightarrow> ChatOptions \<Rightarrow> LoadDraws \<Rightarrow> ChatStore \<Rightarrow> string option outcome" where
  "loadPreviousSession J opts w s =
     (if \<not> opt_loadPreviousSession opts then Returned None s
      else
        (let sessionId = item_sessionId (localStorage s);
             fallback = Returned None
               (startNewSession opts (newSessionId w) (initial_uuids w) (initial_times w) s)
         in case sessionId of
              None \<Rightarrow> fallback
            | Some sid \<Rightarrow>
                if sid = [] then fallback
                else
                  (case getStoredConversations J (localStorage s) of
                     Inl e \<Rightarrow> Threw e s
                   | Inr NotAnArray \<Rightarrow> Threw TypeError s
                   | Inr (Registry storedConversations) \<Rightarrow>
                       (case find (\<lambda>c. conv_id c = sid) storedConversations of
                          Some existingConversation \<Rightarrow>
                            switchSession opts (history_api w) (fetchedAt w) sid
                              (s\<lparr>conversations := storedConversations\<rparr>)
                        | None \<Rightarrow> fallback))))"

definition getCurrentSessionId :: "ChatStore \<Rightarrow> string option" where
  "getCurrentSessionId s = currentSessionId s"

subsection \<open>Calls that do not overlap\<close>

text \<open>
  A call of a store function together with everything the environment supplies to it.
  \<open>exec\<close> runs one call to its end before anything else happens; \<open>run\<close> runs
  calls one after the other and stops at the first exception.
\<close>

datatype operation =
    SendMessage "SendRequest \<Rightarrow> SendMessageResponse promise" string "File list" SendDraws
  | SwitchSession "string \<Rightarrow> LoadPreviousSessionResponse option promise" Timestamp string
  | LoadConversation "string \<Rightarrow> LoadPreviousSessionResponse option promise" Timestamp Timestamp string
  | StartNewSession string "nat \<Rightarrow> string" "nat \<Rightarrow> Timestamp"
  | LoadPreviousSession LoadDraws

definition forget :: "'a outcome \<Rightarrow> unit outcome" where
  "forget out = (case out of Returned res s \<Rightarrow> Returned () s | Threw e s \<Rightarrow> Threw e s)"

fun exec :: "JSON \<Rightarrow> ChatOptions \<Rightarrow> operation \<Rightarrow> ChatStore \<Rightarrow> unit outcome" where
  "exec J opts (SendMessage api body fs d) s = sendMessage J api body fs d s"
| "exec J opts (SwitchSession api timestamp sessionId) s =
     forget (switchSession opts api timestamp sessionId s)"
| "exec J opts (LoadConversation api timestamp accessedAt conversationId) s =
     loadConversation J opts api timestamp accessedAt conversationId s"
| "exec J opts (StartNewSession nid uuids stamps) s =
     Returned () (startNewSession opts nid uuids stamps s)"
| "exec J opts (LoadPreviousSession w) s = forget (loadPreviousSession J opts w s)"

fun run :: "JSON \<Rightarrow> ChatOptions \<Rightarrow> operation list \<Rightarrow> ChatStore \<Rightarrow> unit outcome" where
  "run J opts [] s = Returned () s"
| "run J opts (op # ops) s =
     (case exec J opts op s of
        Returned u s' \<Rightarrow> run J opts ops s'
      | Threw e s' \<Rightarrow> Threw e s')"

section \<open>Properties of a store\<close>

text \<open>The store an outcome leaves, returned or thrown.\<close>

definition store_of :: "'a outcome \<Rightarrow> ChatStore" where
  "store_of out = (case out of Returned res s \<Rightarrow> s | Threw e s \<Rightarrow> s)"

text \<open>The registry lists the latest conversation first, and one summary for each session.\<close>

definition sorted_latest_first :: "ConversationMeta list \<Rightarrow> bool" where
  "sorted_latest_first cs = sorted_wrt (\<lambda>a b. lastUpdated a \<ge> lastUpdated b) cs"

definition one_summary_per_session :: "ConversationMeta list \<Rightarrow> bool" where
  "one_summary_per_session cs = distinct (map conv_id cs)"

text \<open>
  The cached value of \<^verbatim>\<open>initialMessages\<close>, when there is one, came from the getter:
  its texts are the configured ones and every message is the bot's.
\<close>

definition cache_valid :: "ChatOptions \<Rightarrow> ChatStore \<Rightarrow> bool" where
  "cache_valid opts s =
     (case initialMessages_cache s of
        None \<Rightarrow> True
      | Some ms \<Rightarrow> map msg_text ms = configuredInitialMessages opts
                   \<and> list_all (\<lambda>m. msg_sender m = Bot) ms)"

section \<open>Fixtures for the worked examples\<close>

text \<open>
  A stand-in for the runtime's JSON functions, enough for the examples below: it knows the
  empty registry, the registry of one summary and \<^verbatim>\<open>null\<close>, and it fails to serialise a
  response.
\<close>

definition example_summary :: ConversationMeta where
  "example_summary =
     \<lparr>conv_id = ''s-1'', conv_name = ''Nov 2, 2026, 8:42 AM'', lastUpdated = 1501,
      messageCount = \<lparr>user = 1, bot = 1\<rparr>\<rparr>"

definition example_JSON :: JSON where
  "example_JSON =
     \<lparr>parse_conversations =
        (\<lambda>str. if str = ''[]'' then Inr (Registry [])
               else if str = ''[s-1]'' then Inr (Registry [example_summary])
               else if str = ''null'' then Inr NotAnArray
               else Inl SyntaxError),
      stringify_conversations =
        (\<lambda>cs. if cs = [] then ''[]''
              else if cs = [example_summary] then ''[s-1]''
              else ''[...]''),
      stringify_response = (\<lambda>r. Inl TypeError)\<rparr>"

definition example_options :: ChatOptions where
  "example_options =
     \<lparr>opt_initialMessages = Some [''Hi there!''], opt_loadPreviousSession = True,
      opt_agentId = None\<rparr>"

definition empty_storage :: LocalStorage where
  "empty_storage = \<lparr>item_sessionId = None, item_conversations = None\<rparr>"

definition fresh_store :: ChatStore where
  "fresh_store =
     \<lparr>conversations = [], sessions = Map.empty, currentSessionId = None,
      activeSessionId = None, waitingForResponse = False, initialMessages_cache = None,
      localStorage = empty_storage\<rparr>"

definition first_draws :: SendDraws where
  "first_draws =
     \<lparr>sentId = ''u-1'', sentAt = 1000, receivedId = ''u-2'', receivedAt = 1500,
      generatedName = ''Nov 2, 2026, 8:42 AM'', updatedAt = 1501\<rparr>"

definition hello_response :: SendMessageResponse where
  "hello_response = \<lparr>resp_output = Absent, resp_text = Value ''hello'', resp_otherKeys = []\<rparr>"

definition hey_history :: "LoadPreviousSessionResponse option" where
  "hey_history =
     Some \<lparr>data = Some [\<lparr>rec_id = ''HumanMessage-1'', kwargs = \<lparr>content = ''hey''\<rparr>\<rparr>]\<rparr>"

definition loaded_store :: ChatStore where
  "loaded_store = fresh_store\<lparr>sessions := [''s-1'' \<mapsto> []]\<rparr>"

definition active_store :: ChatStore where
  "active_store =
     fresh_store\<lparr>sessions := [''s-1'' \<mapsto> []], activeSessionId := Some ''s-1'',
       currentSessionId := Some ''s-1''\<rparr>"

definition opaque_response :: SendMessageResponse where
  "opaque_response = \<lparr>resp_output = Absent, resp_text = Null, resp_otherKeys = [''status'']\<rparr>"




definition first_session :: ChatStore where
  "first_session = startNewSession example_options ''s-1'' (\<lambda>i. ''m-1'') (\<lambda>i. 900) fresh_store"

definition second_session :: ChatStore where
  "second_session = startNewSession example_options ''s-2'' (\<lambda>i. ''m-2'') (\<lambda>i. 2000) first_session"

definition both_history :: "LoadPreviousSessionResponse option" where
  "both_history =
     Some \<lparr>data = Some [\<lparr>rec_id = ''HumanMessage-1'', kwargs = \<lparr>content = ''hey''\<rparr>\<rparr>,
                         \<lparr>rec_id = ''AIMessage-2'', kwargs = \<lparr>content = ''hello''\<rparr>\<rparr>]\<rparr>"

definition both_backend :: "string \<Rightarrow> LoadPreviousSessionResponse option promise" where
  "both_backend req = Resolved both_history"

definition hello_backend :: "SendRequest \<Rightarrow> SendMessageResponse promise" where
  "hello_backend req = Resolved hello_response"

definition earlier_draws :: SendDraws where
  "earlier_draws =
     \<lparr>sentId = ''u-3'', sentAt = 500, receivedId = ''u-4'', receivedAt = 900,
      generatedName = ''Nov 2, 2026, 8:41 AM'', updatedAt = 901\<rparr>"

definition registry_setup :: "operation list" where
  "registry_setup =
     [StartNewSession ''s-2'' (\<lambda>i. ''m-1'') (\<lambda>i. 400),
      SendMessage hello_backend ''hi'' [] earlier_draws,
      StartNewSession ''s-1'' (\<lambda>i. ''m-2'') (\<lambda>i. 950),
      SendMessage hello_backend ''hi'' [] first_draws]"

definition registry_store :: ChatStore where
  "registry_store = store_of (run example_JSON example_options registry_setup fresh_store)"

text \<open>
  A reply that arrives after the user has started another chat: the first phase of
  \<^verbatim>\<open>sendMessage\<close> in the session \<^verbatim>\<open>s-1\<close>, then \<^verbatim>\<open>startNewSession\<close> while the
  backend call is in flight, then the second phase.
\<close>

definition pending_messages :: "ChatMessage list" where
  "pending_messages =
     [\<lparr>msg_id = ''m-1'', msg_text = ''Hi there!'', msg_sender = Bot, msg_files = None,
       msg_createdAt = 900\<rparr>,
      \<lparr>msg_id = ''u-1'', msg_text = ''hi'', msg_sender = User, msg_files = Some [],
       msg_createdAt = 1000\<rparr>]"

definition waiting_store :: ChatStore where
  "waiting_store =
     first_session\<lparr>sessions := (sessions first_session)(''s-1'' \<mapsto> pending_messages),
       waitingForResponse := True\<rparr>"

definition hello_reply :: ChatMessage where
  "hello_reply =
     \<lparr>msg_id = ''u-2'', msg_text = ''hello'', msg_sender = Bot, msg_files = None,
      msg_createdAt = 1500\<rparr>"

definition interleaved_store :: ChatStore where
  "interleaved_store =
     sendMessage_resume example_JSON pending_messages hello_response first_draws
       (startNewSession example_options ''s-2'' (\<lambda>i. ''m-2'') (\<lambda>i. 2000) waiting_store)"




section \<open>Persistence adapter\<close>


lemma install_fresh: "install example_JSON empty_storage = Some fresh_store"
  by (simp add: install_def getStoredConversations_def getStoredConversations_try_def
      empty_storage_def fresh_store_def)

lemma first_session_eq:
  "first_session =
     fresh_store\<lparr>activeSessionId := Some ''s-1'', currentSessionId := Some ''s-1'',
       initialMessages_cache := Some [\<lparr>msg_id = ''m-1'', msg_text = ''Hi there!'', msg_sender = Bot,
                 msg_files = None, msg_createdAt = 900\<rparr>],
       sessions := [''s-1'' \<mapsto> [\<lparr>msg_id = ''m-1'', msg_text = ''Hi there!'', msg_sender = Bot,
                 msg_files = None, msg_createdAt = 900\<rparr>]],
       localStorage := \<lparr>item_sessionId = Some ''s-1'', item_conversations = None\<rparr>\<rparr>"
  by (simp add: first_session_def startNewSession_def initialMessages_value_def
      initialMessages_getter_def configuredInitialMessages_def example_options_def
      fresh_store_def empty_storage_def Let_def enumerate_eq_zip)

section \<open>switchSession\<close>

lemma includes_str_iff: "includes_str s sub \<longleftrightarrow> (\<exists>p q. s = p @ sub @ q)"
  by (simp add: includes_str_def sublist_def)

text \<open>
  Claim C5. When the session map already holds a list for the id, \<^verbatim>\<open>switchSession\<close>
  does not reach the backend call (its first phase returns), returns \<^verbatim>\<open>undefined\<close>,
  and changes the active and the current id only: every message list stays as it is.
\<close>

theorem switchSession_loaded_is_cache_hit:
  assumes "sessions s sessionId = Some ms"
  shows "switchSession_begin opts sessionId s =
           SwitchReturn None
             (s\<lparr>activeSessionId := Some sessionId, currentSessionId := Some sessionId\<rparr>)
         \<and> switchSession opts api timestamp sessionId s =
           Returned None
             (s\<lparr>activeSessionId := Some sessionId, currentSessionId := Some sessionId\<rparr>)
         \<and> sessions (s\<lparr>activeSessionId := Some sessionId, currentSessionId := Some sessionId\<rparr>)
             = sessions s"
  using assms by (simp add: switchSession_def switchSession_begin_def)

theorem switchSession_loaded_is_cache_hit_witness:
  "sessions loaded_store ''s-1'' = Some []
   \<and> switchSession_begin example_options ''s-1'' loaded_store =
       SwitchReturn None
         (loaded_store\<lparr>activeSessionId := Some ''s-1'', currentSessionId := Some ''s-1''\<rparr>)
   \<and> switchSession example_options (\<lambda>req. Rejected) 1000 ''s-1'' loaded_store =
       Returned None
         (loaded_store\<lparr>activeSessionId := Some ''s-1'', currentSessionId := Some ''s-1''\<rparr>)"
proof -
  have h: "sessions loaded_store ''s-1'' = Some []"
    by (simp add: loaded_store_def fresh_store_def)
  from switchSession_loaded_is_cache_hit [OF h, of example_options "\<lambda>req. Rejected" 1000] h
  show ?thesis
    by simp
qed

lemma history_message_sender:
  "msg_sender (history_message t (i, h)) = User \<longleftrightarrow> (\<exists>p q. rec_id h = p @ ''HumanMessage'' @ q)"
  "msg_sender (history_message t (i, h)) = Bot \<longleftrightarrow> \<not> (\<exists>p q. rec_id h = p @ ''HumanMessage'' @ q)"
  "msg_text (history_message t (i, h)) = content (kwargs h)"
  unfolding history_message_def includes_str_iff by simp_all

lemma switchSession_miss:
  assumes "sessions s sessionId = None"
      and "api (compositeId opts sessionId) = Resolved response"
  shows "switchSession opts api timestamp sessionId s =
           Returned (Some sessionId)
             (s\<lparr>activeSessionId := Some sessionId, currentSessionId := Some sessionId,
                waitingForResponse := False,
                sessions := (sessions s)(sessionId \<mapsto>
                   map (history_message timestamp) (enumerate 0 (history_data response)))\<rparr>)"
  using assms
  by (simp add: switchSession_def switchSession_begin_def switchSession_resume_def)

text \<open>
  Claim C6. When the session is not in memory and the backend answers, \<^verbatim>\<open>switchSession\<close>
  returns the session id and stores for it one message for each history record, in order:
  the text of the \<open>i\<close>-th message is the \<^verbatim>\<open>kwargs.content\<close> of the \<open>i\<close>-th record, and
  its sender is the user exactly when the record's id contains \<^verbatim>\<open>HumanMessage\<close>, the bot
  otherwise.
\<close>

theorem switchSession_maps_history:
  assumes "sessions s sessionId = None"
      and "api (compositeId opts sessionId) = Resolved response"
  shows "\<exists>s' ms. switchSession opts api timestamp sessionId s = Returned (Some sessionId) s'
           \<and> sessions s' sessionId = Some ms
           \<and> length ms = length (history_data response)
           \<and> (\<forall>i < length ms.
                 msg_text (ms ! i) = content (kwargs (history_data response ! i))
               \<and> (msg_sender (ms ! i) = User \<longleftrightarrow>
                    (\<exists>p q. rec_id (history_data response ! i) = p @ ''HumanMessage'' @ q))
               \<and> (msg_sender (ms ! i) = Bot \<longleftrightarrow>
                    \<not> (\<exists>p q. rec_id (history_data response ! i) = p @ ''HumanMessage'' @ q)))"
proof -
  let ?ms = "map (history_message timestamp) (enumerate 0 (history_data response))"
  let ?s' = "s\<lparr>activeSessionId := Some sessionId, currentSessionId := Some sessionId,
                waitingForResponse := False,
                sessions := (sessions s)(sessionId \<mapsto> ?ms)\<rparr>"
  have nth: "?ms ! i = history_message timestamp (i, history_data response ! i)"
    if "i < length ?ms" for i
    using that by (simp add: nth_enumerate_eq)
  have ret: "switchSession opts api timestamp sessionId s = Returned (Some sessionId) ?s'"
    using assms by (rule switchSession_miss)
  have stored: "sessions ?s' sessionId = Some ?ms"
    by simp
  have len: "length ?ms = length (history_data response)"
    by simp
  have each: "\<forall>i < length ?ms.
                 msg_text (?ms ! i) = content (kwargs (history_data response ! i))
               \<and> (msg_sender (?ms ! i) = User \<longleftrightarrow>
                    (\<exists>p q. rec_id (history_data response ! i) = p @ ''HumanMessage'' @ q))
               \<and> (msg_sender (?ms ! i) = Bot \<longleftrightarrow>
                    \<not> (\<exists>p q. rec_id (history_data response ! i) = p @ ''HumanMessage'' @ q))"
  proof (intro allI impI)
    fix i
    assume "i < length ?ms"
    then have "?ms ! i = history_message timestamp (i, history_data response ! i)"
      by (rule nth)
    then show "msg_text (?ms ! i) = content (kwargs (history_data response ! i))
               \<and> (msg_sender (?ms ! i) = User \<longleftrightarrow>
                    (\<exists>p q. rec_id (history_data response ! i) = p @ ''HumanMessage'' @ q))
               \<and> (msg_sender (?ms ! i) = Bot \<longleftrightarrow>
                    \<not> (\<exists>p q. rec_id (history_data response ! i) = p @ ''HumanMessage'' @ q))"
      by (simp only: history_message_sender)
  qed
  from ret stored len each show ?thesis
    by blast
qed

text \<open>
  The scenario of the specification: one record \<^verbatim>\<open>HumanMessage-1\<close> with content
  \<^verbatim>\<open>hey\<close> gives one message, from the user, with text \<^verbatim>\<open>hey\<close>.
\<close>

theorem switchSession_maps_history_witness:
  "sessions fresh_store ''unknown-id'' = None
   \<and> (\<exists>s' ms. switchSession example_options (\<lambda>req. Resolved hey_history) 1000 ''unknown-id''
                  fresh_store = Returned (Some ''unknown-id'') s'
         \<and> sessions s' ''unknown-id'' = Some ms
         \<and> map msg_sender ms = [User] \<and> map msg_text ms = [''hey''])"
proof -
  have h: "sessions fresh_store ''unknown-id'' = None"
    by (simp add: fresh_store_def)
  from switchSession_maps_history
         [OF h, of "\<lambda>req. Resolved hey_history" example_options hey_history 1000]
  obtain s' ms where ret:
      "switchSession example_options (\<lambda>req. Resolved hey_history) 1000 ''unknown-id''
         fresh_store = Returned (Some ''unknown-id'') s'"
    and stored: "sessions s' ''unknown-id'' = Some ms"
    and len: "length ms = length (history_data hey_history)"
    and each: "\<forall>i < length ms.
                 msg_text (ms ! i) = content (kwargs (history_data hey_history ! i))
               \<and> (msg_sender (ms ! i) = User \<longleftrightarrow>
                    (\<exists>p q. rec_id (history_data hey_history ! i) = p @ ''HumanMessage'' @ q))
               \<and> (msg_sender (ms ! i) = Bot \<longleftrightarrow>
                    \<not> (\<exists>p q. rec_id (history_data hey_history ! i) = p @ ''HumanMessage'' @ q))"
    by auto
  from len have "length ms = 1"
    by (simp add: history_data_def hey_history_def)
  then obtain m where ms: "ms = [m]"
    by (cases ms) auto
  have "''HumanMessage-1'' = [] @ ''HumanMessage'' @ ''-1''"
    by simp
  then have ex: "\<exists>p q. ''HumanMessage-1'' = p @ ''HumanMessage'' @ q"
    by blast
  from each ms ex have "msg_text m = ''hey''" and "msg_sender m = User"
    by (simp_all add: history_data_def hey_history_def)
  with ret stored ms h show ?thesis
    by simp
qed

section \<open>sendMessage\<close>

lemma sendMessage_resolved:
  assumes "activeSessionId s = Some a" and "a \<noteq> []"
      and "api \<lparr>req_text = body, req_files = fs, req_sessionId = a\<rparr> = Resolved r"
  shows "sendMessage J api body fs d s =
           Returned ()
             (sendMessage_resume J
                ((case sessions s a of None \<Rightarrow> [] | Some ms \<Rightarrow> ms) @
                 [\<lparr>msg_id = sentId d, msg_text = body, msg_sender = User, msg_files = Some fs,
                   msg_createdAt = sentAt d\<rparr>])
                r d
                (s\<lparr>sessions := (sessions s)(a \<mapsto>
                       (case sessions s a of None \<Rightarrow> [] | Some ms \<Rightarrow> ms) @
                       [\<lparr>msg_id = sentId d, msg_text = body, msg_sender = User,
                         msg_files = Some fs, msg_createdAt = sentAt d\<rparr>]),
                   waitingForResponse := True\<rparr>))"
  using assms by (simp add: sendMessage_def sendMessage_begin_def Let_def)

lemma sendMessage_resume_sessions:
  assumes "activeSessionId s = Some a"
  shows "sessions (sendMessage_resume J upd r d s) =
           (sessions s)(a \<mapsto> upd @ [\<lparr>msg_id = receivedId d, msg_text = replyText J r,
                                        msg_sender = Bot, msg_files = None,
                                        msg_createdAt = receivedAt d\<rparr>])"
  using assms by (simp add: sendMessage_resume_def Let_def)

lemma sendMessage_throws_only_backend_rejection:
  "sendMessage J api body fs d s = Threw e s' \<Longrightarrow> e = BackendRejected"
  by (auto simp add: sendMessage_def split: send_step.splits promise.splits)

lemma replyText_eq:
  "replyText J r =
     (if (case resp_output r of Value v \<Rightarrow> v
          | _ \<Rightarrow> (case resp_text r of Value v \<Rightarrow> v | _ \<Rightarrow> [])) = []
         \<and> Object_keys r \<noteq> []
      then (case stringify_response J r of Inr str \<Rightarrow> str | Inl e \<Rightarrow> [])
      else (case resp_output r of Value v \<Rightarrow> v
            | _ \<Rightarrow> (case resp_text r of Value v \<Rightarrow> v | _ \<Rightarrow> [])))"
  by (simp add: replyText_def nullish_or_def Let_def split: js_field.splits sum.splits)

text \<open>
  Claim C7. The text of the bot reply is \<^verbatim>\<open>output\<close> when the response has one,
  else \<^verbatim>\<open>text\<close>, else the empty string; when that is empty and the response has at
  least one key, it is the serialisation of the response, and the empty string when the
  serialisation throws. Whatever the serialisation does, \<^verbatim>\<open>sendMessage\<close> returns
  and the reply is the last message of the session.
\<close>

theorem sendMessage_reply_text:
  assumes "activeSessionId s = Some a" and "a \<noteq> []"
      and "api \<lparr>req_text = body, req_files = fs, req_sessionId = a\<rparr> = Resolved r"
  shows "\<exists>s' ms. sendMessage J api body fs d s = Returned () s'
           \<and> sessions s' a =
               Some (ms @ [\<lparr>msg_id = receivedId d,
                      msg_text =
                        (if (case resp_output r of Value v \<Rightarrow> v
                             | _ \<Rightarrow> (case resp_text r of Value v \<Rightarrow> v | _ \<Rightarrow> [])) = []
                            \<and> Object_keys r \<noteq> []
                         then (case stringify_response J r of Inr str \<Rightarrow> str | Inl e \<Rightarrow> [])
                         else (case resp_output r of Value v \<Rightarrow> v
                               | _ \<Rightarrow> (case resp_text r of Value v \<Rightarrow> v | _ \<Rightarrow> []))),
                      msg_sender = Bot, msg_files = None, msg_createdAt = receivedAt d\<rparr>])"
proof -
  let ?upd = "(case sessions s a of None \<Rightarrow> [] | Some ms \<Rightarrow> ms) @
                 [\<lparr>msg_id = sentId d, msg_text = body, msg_sender = User, msg_files = Some fs,
                   msg_createdAt = sentAt d\<rparr>]"
  let ?s1 = "s\<lparr>sessions := (sessions s)(a \<mapsto> ?upd), waitingForResponse := True\<rparr>"
  have ret: "sendMessage J api body fs d s = Returned () (sendMessage_resume J ?upd r d ?s1)"
    using assms by (rule sendMessage_resolved)
  have "activeSessionId ?s1 = Some a"
    using assms(1) by simp
  then have "sessions (sendMessage_resume J ?upd r d ?s1) a =
      Some (?upd @ [\<lparr>msg_id = receivedId d, msg_text = replyText J r,
                                        msg_sender = Bot, msg_files = None,
                                        msg_createdAt = receivedAt d\<rparr>])"
    by (simp add: sendMessage_resume_sessions)
  with ret show ?thesis
    unfolding replyText_eq by blast
qed

theorem sendMessage_reply_text_witness:
  "activeSessionId active_store = Some ''s-1''
   \<and> stringify_response example_JSON opaque_response = Inl TypeError
   \<and> (\<exists>s' ms. sendMessage example_JSON (\<lambda>req. Resolved opaque_response) ''hi'' [] first_draws
                  active_store = Returned () s'
         \<and> sessions s' ''s-1'' =
             Some (ms @ [\<lparr>msg_id = ''u-2'', msg_text = [], msg_sender = Bot, msg_files = None,
                          msg_createdAt = 1500\<rparr>]))"
proof -
  have h: "activeSessionId active_store = Some ''s-1''"
    by (simp add: active_store_def)
  have ne: "''s-1'' \<noteq> []"
    by simp
  from sendMessage_reply_text
         [OF h ne, of "\<lambda>req. Resolved opaque_response" "''hi''" "[]" opaque_response
            example_JSON first_draws] h
  show ?thesis
    by (simp add: opaque_response_def example_JSON_def first_draws_def Object_keys_def)
qed

section \<open>loadPreviousSession\<close>

lemma getStoredConversations_Inr: "\<exists>v. getStoredConversations J ls = Inr v"
  by (simp add: getStoredConversations_def split: sum.splits)

lemma find_None_conv_id: "find (\<lambda>c. conv_id c = sid) cs = None \<longleftrightarrow> sid \<notin> conv_id ` set cs"
  by (induction cs) auto




text \<open>
  The throwing case does not depend on the registry in memory, which the function has not
  read by then.
\<close>

lemma loadPreviousSession_non_array:
  assumes "opt_loadPreviousSession opts"
      and "item_sessionId (localStorage s) = Some sid" and "sid \<noteq> []"
      and "getStoredConversations J (localStorage s) = Inr NotAnArray"
  shows "loadPreviousSession J opts w (s\<lparr>conversations := cs\<rparr>) =
           Threw TypeError (s\<lparr>conversations := cs\<rparr>)"
  using assms by (simp add: loadPreviousSession_def Let_def)



section \<open>The waiting flag\<close>

lemma sendMessage_begin_await:
  assumes "sendMessage_begin body fs d s = SendAwait req upd s'"
  shows "waitingForResponse s'" and "activeSessionId s' = activeSessionId s"
    and "\<exists>a. activeSessionId s = Some a \<and> a \<noteq> [] \<and> req_sessionId req = a"
  using assms
  by (auto simp add: sendMessage_begin_def Let_def split: option.splits if_splits)

lemma sendMessage_resume_not_waiting:
  assumes "activeSessionId s = Some a"
  shows "\<not> waitingForResponse (sendMessage_resume J upd r d s)"
  using assms by (simp add: sendMessage_resume_def Let_def)

lemma sendMessage_keeps_not_waiting:
  assumes "\<not> waitingForResponse s" and "sendMessage J api body fs d s = Returned u s'"
  shows "\<not> waitingForResponse s'"
proof (cases "sendMessage_begin body fs d s")
  case (SendReturn s1)
  then have "s1 = s"
    by (auto simp add: sendMessage_begin_def Let_def split: option.splits if_splits)
  with SendReturn assms show ?thesis
    by (simp add: sendMessage_def)
next
  case (SendAwait req upd s1)
  from sendMessage_begin_await(2,3) [OF SendAwait]
  obtain a where a: "activeSessionId s1 = Some a"
    by auto
  from SendAwait assms(2) obtain r where "s' = sendMessage_resume J upd r d s1"
    by (auto simp add: sendMessage_def split: promise.splits)
  with a show ?thesis
    by (simp add: sendMessage_resume_not_waiting)
qed



lemma switchSession_keeps_not_waiting:
  assumes "\<not> waitingForResponse s" and "switchSession opts api t sid s = Returned res s'"
  shows "\<not> waitingForResponse s'"
  using assms
  by (auto simp add: switchSession_def switchSession_begin_def switchSession_resume_def Let_def
      split: if_splits promise.splits)

lemma loadConversation_keeps_not_waiting:
  assumes "\<not> waitingForResponse s" and "loadConversation J opts api t now cid s = Returned u s'"
  shows "\<not> waitingForResponse s'"
proof (cases "switchSession opts api t cid s")
  case (Returned res s1)
  with assms(1) have "\<not> waitingForResponse s1"
    by (simp add: switchSession_keeps_not_waiting)
  with Returned assms(2) show ?thesis
    by (auto simp add: loadConversation_def Let_def split: option.splits)
next
  case (Threw e s1)
  with assms(2) show ?thesis
    by (simp add: loadConversation_def)
qed

lemma startNewSession_waiting:
  "waitingForResponse (startNewSession opts nid uuids stamps s) = waitingForResponse s"
  by (simp add: startNewSession_def initialMessages_value_def Let_def split: option.splits)

lemma loadPreviousSession_keeps_not_waiting:
  assumes "\<not> waitingForResponse s" and "loadPreviousSession J opts w s = Returned res s'"
  shows "\<not> waitingForResponse s'"
proof -
  obtain v where v: "getStoredConversations J (localStorage s) = Inr v"
    using getStoredConversations_Inr by blast
  have sw: "\<not> waitingForResponse s2"
    if "switchSession opts api t sid (s\<lparr>conversations := cs\<rparr>) = Returned res2 s2"
    for api t sid cs res2 s2
    using switchSession_keeps_not_waiting [OF _ that] assms(1) by simp
  from assms show ?thesis
    by (auto simp add: loadPreviousSession_def Let_def v startNewSession_waiting
        split: if_splits option.splits parsed.splits dest: sw)
qed

lemma exec_keeps_not_waiting:
  assumes "\<not> waitingForResponse s" and "exec J opts op s = Returned u s'"
  shows "\<not> waitingForResponse s'"
proof (cases op)
  case (SendMessage api body fs d)
  with assms show ?thesis
    by (auto dest: sendMessage_keeps_not_waiting)
next
  case (SwitchSession api t sid)
  with assms show ?thesis
    by (auto simp add: forget_def split: outcome.splits dest: switchSession_keeps_not_waiting)
next
  case (LoadConversation api t now cid)
  with assms show ?thesis
    by (auto dest: loadConversation_keeps_not_waiting)
next
  case (StartNewSession nid uuids stamps)
  with assms show ?thesis
    by (auto simp add: startNewSession_waiting)
next
  case (LoadPreviousSession w)
  with assms show ?thesis
    by (auto simp add: forget_def split: outcome.splits dest: loadPreviousSession_keeps_not_waiting)
qed

lemma run_keeps_not_waiting:
  "\<not> waitingForResponse s \<Longrightarrow> run J opts ops s = Returned u s' \<Longrightarrow> \<not> waitingForResponse s'"
proof (induction ops arbitrary: s)
  case Nil
  then show ?case by simp
next
  case (Cons op ops)
  from Cons.prems(2) obtain u1 s1 where e: "exec J opts op s = Returned u1 s1"
      and r: "run J opts ops s1 = Returned u s'"
    by (auto split: outcome.splits)
  from Cons.prems(1) e have "\<not> waitingForResponse s1"
    by (rule exec_keeps_not_waiting)
  then show ?case using r
    by (rule Cons.IH)
qed

lemma install_not_waiting: "install J ls = Some s0 \<Longrightarrow> \<not> waitingForResponse s0"
  by (auto simp add: install_def split: sum.splits parsed.splits)










section \<open>startNewSession\<close>

lemma getter_texts:
  "map msg_text (initialMessages_getter opts uuids stamps) = configuredInitialMessages opts"
  by (rule nth_equalityI) (simp_all add: initialMessages_getter_def nth_enumerate_eq)

lemma getter_senders:
  "list_all (\<lambda>m. msg_sender m = Bot) (initialMessages_getter opts uuids stamps)"
  by (auto simp add: initialMessages_getter_def list_all_iff)

lemma getter_ids:
  "map msg_id (initialMessages_getter opts uuids stamps) =
     map uuids [0..<length (configuredInitialMessages opts)]"
  by (rule nth_equalityI) (simp_all add: initialMessages_getter_def nth_enumerate_eq)

lemma getter_stamps:
  "map msg_createdAt (initialMessages_getter opts uuids stamps) =
     map stamps [0..<length (configuredInitialMessages opts)]"
  by (rule nth_equalityI) (simp_all add: initialMessages_getter_def nth_enumerate_eq)

text \<open>
  The cached value of \<^verbatim>\<open>initialMessages\<close> is valid in the installed store and stays
  valid through every call.
\<close>

lemma cache_sendMessage:
  "initialMessages_cache (store_of (sendMessage J api body fs d s)) = initialMessages_cache s"
  by (simp add: sendMessage_def sendMessage_begin_def sendMessage_resume_def store_of_def Let_def
      split: option.splits promise.splits)

lemma cache_switchSession:
  "initialMessages_cache (store_of (switchSession opts api t sid s)) = initialMessages_cache s"
  by (simp add: switchSession_def switchSession_begin_def switchSession_resume_def store_of_def
      Let_def split: promise.splits)

lemma cache_loadConversation:
  "initialMessages_cache (store_of (loadConversation J opts api t now cid s)) =
     initialMessages_cache s"
proof (cases "switchSession opts api t cid s")
  case (Returned res s1)
  with cache_switchSession [of opts api t cid s] show ?thesis
    by (simp add: loadConversation_def store_of_def Let_def split: option.splits)
next
  case (Threw e s1)
  with cache_switchSession [of opts api t cid s] show ?thesis
    by (simp add: loadConversation_def store_of_def)
qed

lemma cache_valid_startNewSession:
  "cache_valid opts s \<Longrightarrow> cache_valid opts (startNewSession opts nid uuids stamps s)"
  by (auto simp add: cache_valid_def startNewSession_def initialMessages_value_def Let_def
      getter_texts getter_senders split: option.splits)

lemma cache_valid_loadPreviousSession:
  assumes "cache_valid opts s"
  shows "cache_valid opts (store_of (loadPreviousSession J opts w s))"
proof -
  obtain v where v: "getStoredConversations J (localStorage s) = Inr v"
    using getStoredConversations_Inr by blast
  have sw: "cache_valid opts (store_of (switchSession opts api t sid (s\<lparr>conversations := cs\<rparr>)))"
    for api t sid cs
    using assms by (simp add: cache_valid_def cache_switchSession)
  have thrown: "store_of (Threw e s :: string option outcome) = s" for e
    by (simp add: store_of_def)
  have returned: "store_of (Returned r s2 :: string option outcome) = s2" for r s2
    by (simp add: store_of_def)
  show ?thesis
    using assms cache_valid_startNewSession [OF assms]
    by (simp add: loadPreviousSession_def v Let_def sw thrown returned
        split: option.splits parsed.splits)
qed

lemma store_of_forget: "store_of (forget out) = store_of out"
  by (simp add: store_of_def forget_def split: outcome.splits)

lemma exec_keeps_cache_valid:
  "cache_valid opts s \<Longrightarrow> cache_valid opts (store_of (exec J opts call s))"
proof (cases call)
  case (SendMessage api body fs d)
  then show "cache_valid opts s \<Longrightarrow> ?thesis"
    by (simp add: cache_valid_def cache_sendMessage)
next
  case (SwitchSession api t sid)
  then show "cache_valid opts s \<Longrightarrow> ?thesis"
    by (simp add: cache_valid_def cache_switchSession store_of_forget)
next
  case (LoadConversation api t now cid)
  then show "cache_valid opts s \<Longrightarrow> ?thesis"
    by (simp add: cache_valid_def cache_loadConversation)
next
  case (StartNewSession nid uuids stamps)
  then show "cache_valid opts s \<Longrightarrow> ?thesis"
    by (simp add: cache_valid_startNewSession store_of_def)
next
  case (LoadPreviousSession w)
  then show "cache_valid opts s \<Longrightarrow> ?thesis"
    by (simp add: cache_valid_loadPreviousSession store_of_forget)
qed

lemma run_keeps_cache_valid:
  "cache_valid opts s \<Longrightarrow> cache_valid opts (store_of (run J opts calls s))"
proof (induction calls arbitrary: s)
  case Nil
  then show ?case
    by (simp add: store_of_def)
next
  case (Cons call calls)
  show ?case
  proof (cases "exec J opts call s")
    case (Returned u s1)
    with exec_keeps_cache_valid [OF Cons.prems, of J call] have "cache_valid opts s1"
      by (simp add: store_of_def)
    then have "cache_valid opts (store_of (run J opts calls s1))"
      by (rule Cons.IH)
    with Returned show ?thesis
      by simp
  next
    case (Threw e s1)
    with exec_keeps_cache_valid [OF Cons.prems, of J call] show ?thesis
      by (simp add: store_of_def)
  qed
qed

lemma install_cache_valid: "install J ls = Some s \<Longrightarrow> cache_valid opts s"
  by (auto simp add: install_def cache_valid_def split: sum.splits parsed.splits)

text \<open>The same for the two phases of a call that awaits, taken apart.\<close>

lemma cache_phases:
  "initialMessages_cache (sendMessage_resume J upd r d s) = initialMessages_cache s"
  "initialMessages_cache (snd (switchSession_resume sid h t s)) = initialMessages_cache s"
  "sendMessage_begin body fs d s = SendAwait sreq upd s1 \<Longrightarrow>
     initialMessages_cache s1 = initialMessages_cache s"
  "switchSession_begin opts sid s = SwitchAwait hreq s2 \<Longrightarrow>
     initialMessages_cache s2 = initialMessages_cache s"
  by (auto simp add: sendMessage_resume_def sendMessage_begin_def switchSession_resume_def
      switchSession_begin_def Let_def split: option.splits if_splits)

text \<open>
  Claim C4 as stated fails, twice. The second of two successive calls seeds its session
  with the messages of the first call, with the first call's message id and timestamp,
  although the environment offers a new id and a later time. And nothing in the function
  keeps the session id out of the session map: the id is what \<^verbatim>\<open>uuidv4()\<close> returns,
  and a call that is given the id of a session in the map replaces that session's list.
\<close>

theorem startNewSession_reuses_first_initial_messages:
  "sessions second_session ''s-2'' =
     Some [\<lparr>msg_id = ''m-1'', msg_text = ''Hi there!'', msg_sender = Bot,
            msg_files = None, msg_createdAt = 900\<rparr>]
   \<and> sessions second_session ''s-2'' = sessions second_session ''s-1''
   \<and> sessions second_session ''s-2'' \<noteq>
       Some [\<lparr>msg_id = ''m-2'', msg_text = ''Hi there!'', msg_sender = Bot,
              msg_files = None, msg_createdAt = 2000\<rparr>]
   \<and> sessions waiting_store ''s-1'' = Some pending_messages
   \<and> sessions (startNewSession example_options ''s-1'' (\<lambda>i. ''m-2'') (\<lambda>i. 2000) waiting_store)
         ''s-1'' =
       Some [\<lparr>msg_id = ''m-1'', msg_text = ''Hi there!'', msg_sender = Bot,
              msg_files = None, msg_createdAt = 900\<rparr>]"
  by (simp add: second_session_def waiting_store_def first_session_eq startNewSession_def
      initialMessages_value_def fresh_store_def Let_def)

text \<open>
  Claim C4, as amended. \<^verbatim>\<open>startNewSession\<close> takes as session id what
  \<^verbatim>\<open>uuidv4()\<close> returns, without looking it up in the session map; it makes it the
  active and the current id, writes it under the last-session key, and leaves the registry
  and the list of every other session as they are. The list it stores for the id is the
  value of \<^verbatim>\<open>initialMessages\<close>: the cached value when there is one, else the
  configured texts as bot messages with the ids and timestamps drawn in this call, which
  then become the cached value, so that the next call stores the same list. Where the
  cached value came from the getter, as it does in the installed store and after every
  call, the list holds the configured texts, all from the bot.
\<close>

theorem startNewSession_seeds_cached_initial_messages:
  "\<exists>seed s'. startNewSession opts nid uuids stamps s = s'
     \<and> seed = (case initialMessages_cache s of
                  Some ms \<Rightarrow> ms
                | None \<Rightarrow> initialMessages_getter opts uuids stamps)
     \<and> map msg_text (initialMessages_getter opts uuids stamps) = configuredInitialMessages opts
     \<and> list_all (\<lambda>m. msg_sender m = Bot) (initialMessages_getter opts uuids stamps)
     \<and> (cache_valid opts s \<longrightarrow>
          map msg_text seed = configuredInitialMessages opts
          \<and> list_all (\<lambda>m. msg_sender m = Bot) seed
          \<and> cache_valid opts s')
     \<and> activeSessionId s' = Some nid
     \<and> currentSessionId s' = Some nid
     \<and> sessions s' = (sessions s)(nid \<mapsto> seed)
     \<and> initialMessages_cache s' = Some seed
     \<and> item_sessionId (localStorage s') = Some nid
     \<and> item_conversations (localStorage s') = item_conversations (localStorage s)
     \<and> conversations s' = conversations s
     \<and> sessions (startNewSession opts nid2 uuids2 stamps2 s') nid2 = Some seed
     \<and> (install J ls = Some s_init \<longrightarrow> cache_valid opts s_init)
     \<and> (cache_valid opts s \<longrightarrow> cache_valid opts (store_of (exec J opts call s)))"
proof (cases "initialMessages_cache s")
  case None
  then show ?thesis
    using install_cache_valid [of J ls s_init opts] exec_keeps_cache_valid [of opts s J call]
    by (simp add: startNewSession_def initialMessages_value_def Let_def cache_valid_def
        getter_texts getter_senders)
next
  case (Some ms)
  then show ?thesis
    using install_cache_valid [of J ls s_init opts] exec_keeps_cache_valid [of opts s J call]
    by (simp add: startNewSession_def initialMessages_value_def Let_def cache_valid_def
        getter_texts getter_senders)
qed

theorem startNewSession_seeds_cached_initial_messages_witness:
  "cache_valid example_options first_session
   \<and> activeSessionId second_session = Some ''s-2''
   \<and> currentSessionId second_session = Some ''s-2''
   \<and> sessions second_session =
       (sessions first_session)(''s-2'' \<mapsto>
          [\<lparr>msg_id = ''m-1'', msg_text = ''Hi there!'', msg_sender = Bot,
            msg_files = None, msg_createdAt = 900\<rparr>])
   \<and> cache_valid example_options second_session
   \<and> item_sessionId (localStorage second_session) = Some ''s-2''
   \<and> conversations second_session = conversations first_session
   \<and> install example_JSON empty_storage = Some fresh_store
   \<and> cache_valid example_options fresh_store
   \<and> cache_valid example_options
        (store_of (exec example_JSON example_options
                     (SendMessage hello_backend ''hi'' [] first_draws) first_session))"
proof -
  have valid: "cache_valid example_options first_session"
    by (simp add: first_session_eq cache_valid_def configuredInitialMessages_def
        example_options_def)
  have cached: "initialMessages_cache first_session =
      Some [\<lparr>msg_id = ''m-1'', msg_text = ''Hi there!'', msg_sender = Bot,
            msg_files = None, msg_createdAt = 900\<rparr>]"
    by (simp add: first_session_eq)
  from startNewSession_seeds_cached_initial_messages
         [where opts = example_options and nid = "''s-2''" and uuids = "\<lambda>i. ''m-2''"
            and stamps = "\<lambda>i. 2000" and s = first_session and J = example_JSON
            and ls = empty_storage and s_init = fresh_store
            and call = "SendMessage hello_backend ''hi'' [] first_draws"]
       cached valid install_fresh
  show ?thesis
    unfolding second_session_def by auto
qed

section \<open>The conversation registry\<close>

lemma mutate_first_map:
  "(\<And>x. g (f x) = g x) \<Longrightarrow> map g (mutate_first p f xs) = map g xs"
  by (induction xs) auto





lemma length_filter_pos: "0 < length (filter P xs) \<longleftrightarrow> (\<exists>x \<in> set xs. P x)"
  by (induction xs) auto

lemma sendMessage_resume_conversations:
  assumes "activeSessionId s = Some a" and "\<exists>m \<in> set upd. msg_sender m = User"
  shows "conversations (sendMessage_resume J upd r d s) =
           sort_latest_first
             (upsertConversation a
                \<lparr>user = length (filter (\<lambda>m. msg_sender m = User) upd),
                 bot = Suc (length (filter (\<lambda>m. msg_sender m = Bot) upd))\<rparr>
                d (conversations s))"
proof -
  from assms(2) have "filter (\<lambda>m. msg_sender m = User) upd \<noteq> []"
    by (auto simp add: filter_empty_conv)
  with assms(1) show ?thesis
    by (simp add: sendMessage_resume_def Let_def)
qed











text \<open>
  \<^verbatim>\<open>sendMessage\<close> sorts the registry after its upsert, and keeps one summary for each
  session.
\<close>

lemma sort_latest_first_sorted: "sorted_latest_first (sort_latest_first cs)"
proof -
  have "sorted (map (\<lambda>c. - lastUpdated c) (sort_key (\<lambda>c. - lastUpdated c) cs))"
    by (rule sorted_sort_key)
  then show ?thesis
    by (simp add: sorted_latest_first_def sort_latest_first_def sorted_wrt_map)
qed

lemma sort_latest_first_one_summary:
  "one_summary_per_session (sort_latest_first cs) = one_summary_per_session cs"
  by (simp add: one_summary_per_session_def sort_latest_first_def distinct_map)

lemma upsertConversation_one_summary:
  assumes "one_summary_per_session cs"
  shows "one_summary_per_session (upsertConversation a stats d cs)"
proof (cases "find (\<lambda>c. conv_id c = a) cs")
  case None
  then have "a \<notin> conv_id ` set cs"
    unfolding find_None_conv_id by simp
  with None assms show ?thesis
    by (simp add: upsertConversation_def one_summary_per_session_def)
next
  case (Some c)
  then have "map conv_id (upsertConversation a stats d cs) = map conv_id cs"
    by (simp add: upsertConversation_def mutate_first_map)
  with assms show ?thesis
    by (simp add: one_summary_per_session_def)
qed

lemma sendMessage_registry_sorted:
  assumes "activeSessionId s = Some a" and "a \<noteq> []"
      and "api \<lparr>req_text = body, req_files = fs, req_sessionId = a\<rparr> = Resolved r"
  shows "sorted_latest_first (conversations (store_of (sendMessage J api body fs d s)))"
    and "one_summary_per_session (conversations s) \<Longrightarrow>
         one_summary_per_session (conversations (store_of (sendMessage J api body fs d s)))"
proof -
  let ?upd = "(case sessions s a of None \<Rightarrow> [] | Some ms \<Rightarrow> ms) @
                [\<lparr>msg_id = sentId d, msg_text = body, msg_sender = User, msg_files = Some fs,
                  msg_createdAt = sentAt d\<rparr>]"
  let ?s1 = "s\<lparr>sessions := (sessions s)(a \<mapsto> ?upd), waitingForResponse := True\<rparr>"
  let ?stats = "\<lparr>user = length (filter (\<lambda>m. msg_sender m = User) ?upd),
                 bot = Suc (length (filter (\<lambda>m. msg_sender m = Bot) ?upd))\<rparr>"
  have ret: "sendMessage J api body fs d s = Returned () (sendMessage_resume J ?upd r d ?s1)"
    using assms by (rule sendMessage_resolved)
  have act: "activeSessionId ?s1 = Some a"
    using assms(1) by simp
  have usr: "\<exists>m \<in> set ?upd. msg_sender m = User"
    by simp
  have convs: "conversations (store_of (sendMessage J api body fs d s)) =
                 sort_latest_first (upsertConversation a ?stats d (conversations s))"
    using sendMessage_resume_conversations [OF act usr, of J r d]
    by (simp add: ret store_of_def)
  show "sorted_latest_first (conversations (store_of (sendMessage J api body fs d s)))"
    unfolding convs by (rule sort_latest_first_sorted)
  show "one_summary_per_session (conversations (store_of (sendMessage J api body fs d s)))"
    if "one_summary_per_session (conversations s)"
    unfolding convs sort_latest_first_one_summary
    using that by (rule upsertConversation_one_summary)
qed

text \<open>
  Two conversations, the later one first; then the earlier one is opened again.
\<close>

lemma registry_store_registry:
  "conversations registry_store =
     [\<lparr>conv_id = ''s-1'', conv_name = ''Nov 2, 2026, 8:42 AM'', lastUpdated = 1501,
       messageCount = \<lparr>user = 1, bot = 2\<rparr>\<rparr>,
      \<lparr>conv_id = ''s-2'', conv_name = ''Nov 2, 2026, 8:41 AM'', lastUpdated = 901,
       messageCount = \<lparr>user = 1, bot = 2\<rparr>\<rparr>]"
  "sessions registry_store ''s-2'' \<noteq> None"
  by (simp_all add: registry_store_def registry_setup_def store_of_def
      sendMessage_def sendMessage_begin_def sendMessage_resume_def startNewSession_def
      initialMessages_value_def initialMessages_getter_def configuredInitialMessages_def
      upsertConversation_def sort_latest_first_def updateStoredConversations_def
      replyText_def nullish_or_def Object_keys_def
      hello_backend_def hello_response_def earlier_draws_def first_draws_def
      example_options_def example_JSON_def fresh_store_def empty_storage_def
      Let_def enumerate_eq_zip)

text \<open>
  Claim C2. \<^verbatim>\<open>loadConversation\<close> refreshes \<^verbatim>\<open>lastUpdated\<close> and persists the
  registry without sorting it, unlike \<^verbatim>\<open>sendMessage\<close>: from a sorted registry of two
  conversations, opening the older one leaves it second although it is now the latest.
\<close>

theorem loadConversation_leaves_registry_unsorted:
  "sorted_latest_first (conversations registry_store)
   \<and> map conv_id (conversations registry_store) = [''s-1'', ''s-2'']
   \<and> map lastUpdated (conversations registry_store) = [1501, 901]
   \<and> map conv_id (conversations (store_of
         (loadConversation example_JSON example_options both_backend 3000 3001 ''s-2''
            registry_store))) = [''s-1'', ''s-2'']
   \<and> map lastUpdated (conversations (store_of
         (loadConversation example_JSON example_options both_backend 3000 3001 ''s-2''
            registry_store))) = [1501, 3001]
   \<and> \<not> sorted_latest_first (conversations (store_of
         (loadConversation example_JSON example_options both_backend 3000 3001 ''s-2''
            registry_store)))"
proof -
  obtain ms where ms: "sessions registry_store ''s-2'' = Some ms"
    using registry_store_registry(2) by blast
  have sw: "switchSession example_options both_backend 3000 ''s-2'' registry_store =
          Returned None (registry_store\<lparr>activeSessionId := Some ''s-2'',
                                        currentSessionId := Some ''s-2''\<rparr>)"
    using ms by (simp add: switchSession_def switchSession_begin_def)
  show ?thesis
    by (simp add: loadConversation_def sw registry_store_registry(1) store_of_def Let_def
        sorted_latest_first_def)
qed

section \<open>A reply that arrives after the active session has changed\<close>

lemma activeSessionId_startNewSession:
  "activeSessionId (startNewSession opts nid uuids stamps s) = Some nid"
  by (simp add: startNewSession_def initialMessages_value_def Let_def split: option.splits)

lemma sessions_startNewSession_other:
  "x \<noteq> nid \<Longrightarrow> sessions (startNewSession opts nid uuids stamps s) x = sessions s x"
  by (simp add: startNewSession_def initialMessages_value_def Let_def split: option.splits)

text \<open>
  Claim C1. The request is sent for the session \<^verbatim>\<open>s-1\<close>, active when
  \<^verbatim>\<open>sendMessage\<close> started. The user starts the session \<^verbatim>\<open>s-2\<close> while the call is
  in flight. When the reply arrives, the code reads \<^verbatim>\<open>activeSessionId.value\<close> again:
  the messages of \<^verbatim>\<open>s-1\<close> followed by the reply become the list of \<^verbatim>\<open>s-2\<close>, the
  list of \<^verbatim>\<open>s-1\<close> stays without the reply, and the summary is created for
  \<^verbatim>\<open>s-2\<close>.
\<close>

theorem reply_lands_in_session_active_on_arrival:
  "sendMessage_begin ''hi'' [] first_draws first_session =
     SendAwait \<lparr>req_text = ''hi'', req_files = [], req_sessionId = ''s-1''\<rparr>
       pending_messages waiting_store
   \<and> sessions interleaved_store ''s-1'' = Some pending_messages
   \<and> sessions interleaved_store ''s-2'' = Some (pending_messages @ [hello_reply])
   \<and> map conv_id (conversations interleaved_store) = [''s-2'']"
proof -
  have first_phase: "sendMessage_begin ''hi'' [] first_draws first_session =
     SendAwait \<lparr>req_text = ''hi'', req_files = [], req_sessionId = ''s-1''\<rparr>
       pending_messages waiting_store"
    by (simp add: sendMessage_begin_def waiting_store_def pending_messages_def
        first_session_eq first_draws_def Let_def)
  let ?s2 = "startNewSession example_options ''s-2'' (\<lambda>i. ''m-2'') (\<lambda>i. 2000) waiting_store"
  have act: "activeSessionId ?s2 = Some ''s-2''"
    by (rule activeSessionId_startNewSession)
  have reply: "replyText example_JSON hello_response = ''hello''"
    by (simp add: replyText_def nullish_or_def hello_response_def)
  have old: "sessions ?s2 ''s-1'' = Some pending_messages"
    by (simp add: sessions_startNewSession_other waiting_store_def)
  have s1: "sessions interleaved_store ''s-1'' = Some pending_messages"
    unfolding interleaved_store_def sendMessage_resume_sessions [OF act]
    using old by simp
  have s2: "sessions interleaved_store ''s-2'' = Some (pending_messages @ [hello_reply])"
    unfolding interleaved_store_def sendMessage_resume_sessions [OF act]
    by (simp add: reply hello_reply_def first_draws_def)
  have usr: "\<exists>m \<in> set pending_messages. msg_sender m = User"
    by (simp add: pending_messages_def)
  have "conversations ?s2 = []"
    by (simp add: startNewSession_def initialMessages_value_def Let_def waiting_store_def
        first_session_eq fresh_store_def split: option.splits)
  then have convs: "map conv_id (conversations interleaved_store) = [''s-2'']"
    unfolding interleaved_store_def sendMessage_resume_conversations [OF act usr]
    by (simp add: upsertConversation_def sort_latest_first_def)
  from first_phase s1 s2 convs show ?thesis
    by simp
qed

section \<open>What every call keeps\<close>

text \<open>No store function resets the active session id.\<close>

lemma active_sendMessage_resume:
  "activeSessionId (sendMessage_resume J upd r d s) = activeSessionId s"
  by (simp add: sendMessage_resume_def Let_def split: option.splits)

lemma exec_keeps_active:
  "activeSessionId s \<noteq> None \<Longrightarrow> activeSessionId (store_of (exec J opts call s)) \<noteq> None"
proof (cases call)
  case (SendMessage api body fs d)
  then show "activeSessionId s \<noteq> None \<Longrightarrow> ?thesis"
    by (auto simp add: sendMessage_def sendMessage_begin_def active_sendMessage_resume
        store_of_def Let_def split: option.splits promise.splits)
next
  case (SwitchSession api t sid)
  then show "activeSessionId s \<noteq> None \<Longrightarrow> ?thesis"
    by (simp add: switchSession_def switchSession_begin_def switchSession_resume_def
        store_of_def forget_def Let_def split: promise.splits)
next
  case (LoadConversation api t now cid)
  then show "activeSessionId s \<noteq> None \<Longrightarrow> ?thesis"
    by (simp add: loadConversation_def switchSession_def switchSession_begin_def
        switchSession_resume_def store_of_def Let_def split: promise.splits option.splits)
next
  case (StartNewSession nid uuids stamps)
  then show "activeSessionId s \<noteq> None \<Longrightarrow> ?thesis"
    by (simp add: activeSessionId_startNewSession store_of_def)
next
  case (LoadPreviousSession w)
  obtain v where v: "getStoredConversations J (localStorage s) = Inr v"
    using getStoredConversations_Inr by blast
  from LoadPreviousSession show "activeSessionId s \<noteq> None \<Longrightarrow> ?thesis"
    by (simp add: loadPreviousSession_def v switchSession_def switchSession_begin_def
        switchSession_resume_def activeSessionId_startNewSession store_of_def forget_def
        Let_def split: promise.splits option.splits parsed.splits)
qed

end
